theory Spec2Isabelle
  imports Complex_Main
begin

section \<open>JSON values as the JavaScript runtime holds them\<close>

text \<open>
  A response body is the value \<open>JSON.parse\<close> built. An object is the list of its own
  properties in the order \<open>Object.keys\<close> and \<open>Object.entries\<close> enumerate them (a
  JavaScript object has each key once; where a list repeats a key, the first entry is the
  one a property read sees). A number is modelled by its integer value: the model is exact
  for the safe integers (magnitude below \<open>2 ^ 53\<close>), fractions and the rounding of the
  double format are outside it. A character is a UTF-16 code unit below 256.
  The value \<open>undefined\<close> is \<open>None\<close> of \<open>json option\<close>.
\<close>

datatype json =
    JNull
  | JBool bool
  | JNumber int
  | JString string
  | JArray "json list"
  | JObject "(string \<times> json) list"

datatype error =
    TypeError             \<comment> \<open>raised by the JavaScript runtime\<close>
  | RESOURCE_NOT_ALLOWED  \<comment> \<open>\<open>new Error(EApiErrors.RESOURCE_NOT_ALLOWED)\<close>\<close>
  | External string       \<comment> \<open>raised by a collaborator (credential provider, transport, error handler)\<close>

subsection \<open>StringToNumber\<close>

text \<open>
  The conversion \<open>==\<close> applies to a string that is compared with a number or a boolean
  (ECMAScript \<open>StringToNumber\<close>): white space is trimmed, the empty string is \<open>0\<close>, then a
  binary, octal or hexadecimal integer literal or a signed decimal literal with optional
  fraction and exponent is read; anything else is \<open>NaN\<close>. The result is the exact value
  of the literal.
\<close>

datatype jsnum = NaN | PosInfinity | NegInfinity | Finite rat

definition isWhiteSpace :: "char \<Rightarrow> bool" where
  "isWhiteSpace c =
     (c \<in> set [CHR 0x09, CHR 0x0A, CHR 0x0B, CHR 0x0C, CHR 0x0D, CHR 0x20, CHR 0xA0])"

definition trim :: "string \<Rightarrow> string" where
  "trim s = rev (dropWhile isWhiteSpace (rev (dropWhile isWhiteSpace s)))"

definition isDigit :: "nat \<Rightarrow> char \<Rightarrow> bool" where
  "isDigit base c =
     (c \<in> set (take base ''0123456789'') \<or> (base = 16 \<and> c \<in> set ''abcdefABCDEF''))"

definition digitOf :: "char \<Rightarrow> nat" where
  "digitOf c =
     (if c \<in> set ''0123456789'' then of_char c - 48
      else if c \<in> set ''abcdef'' then of_char c - 87
      else of_char c - 55)"

definition digitsValue :: "nat \<Rightarrow> string \<Rightarrow> nat" where
  "digitsValue base ds = foldl (\<lambda>a c. a * base + digitOf c) 0 ds"

definition nonDecimal :: "nat \<Rightarrow> string \<Rightarrow> jsnum" where
  "nonDecimal base ds =
     (if ds \<noteq> [] \<and> list_all (isDigit base) ds
      then Finite (of_nat (digitsValue base ds)) else NaN)"

definition exponentPart :: "string \<Rightarrow> int option" where
  "exponentPart s =
     (case s of
        [] \<Rightarrow> Some 0
      | c # r \<Rightarrow>
          if c = CHR ''e'' \<or> c = CHR ''E'' then
            (let neg = (r \<noteq> [] \<and> hd r = CHR ''-'');
                 ds = (if r \<noteq> [] \<and> (hd r = CHR ''+'' \<or> hd r = CHR ''-'') then tl r else r)
             in if ds \<noteq> [] \<and> list_all (isDigit 10) ds
                then Some (if neg then - int (digitsValue 10 ds) else int (digitsValue 10 ds))
                else None)
          else None)"

definition scale10 :: "rat \<Rightarrow> int \<Rightarrow> rat" where
  "scale10 q e = (if 0 \<le> e then q * 10 ^ nat e else q / 10 ^ nat (- e))"

definition strUnsignedDecimalLiteral :: "string \<Rightarrow> jsnum" where
  "strUnsignedDecimalLiteral s =
     (if s = ''Infinity'' then PosInfinity
      else
        let ip = takeWhile (isDigit 10) s;
            r1 = dropWhile (isDigit 10) s;
            dot = (r1 \<noteq> [] \<and> hd r1 = CHR ''.'');
            fp = (if dot then takeWhile (isDigit 10) (tl r1) else []);
            r2 = (if dot then dropWhile (isDigit 10) (tl r1) else r1)
        in if ip = [] \<and> fp = [] then NaN
           else (case exponentPart r2 of
                   None \<Rightarrow> NaN
                 | Some e \<Rightarrow>
                     Finite (scale10 (of_nat (digitsValue 10 (ip @ fp))) (e - int (length fp)))))"

definition negate :: "jsnum \<Rightarrow> jsnum" where
  "negate x =
     (case x of NaN \<Rightarrow> NaN | PosInfinity \<Rightarrow> NegInfinity
      | NegInfinity \<Rightarrow> PosInfinity | Finite q \<Rightarrow> Finite (- q))"

definition stringToNumber :: "string \<Rightarrow> jsnum" where
  "stringToNumber s =
     (let t = trim s in
      if t = [] then Finite 0
      else if take 2 t \<in> {''0x'', ''0X''} then nonDecimal 16 (drop 2 t)
      else if take 2 t \<in> {''0o'', ''0O''} then nonDecimal 8 (drop 2 t)
      else if take 2 t \<in> {''0b'', ''0B''} then nonDecimal 2 (drop 2 t)
      else if hd t = CHR ''+'' then strUnsignedDecimalLiteral (tl t)
      else if hd t = CHR ''-'' then negate (strUnsignedDecimalLiteral (tl t))
      else strUnsignedDecimalLiteral t)"

subsection \<open>ToString\<close>

function natToString :: "nat \<Rightarrow> string" where
  "natToString n =
     (if n < 10 then [char_of (48 + n)]
      else natToString (n div 10) @ [char_of (48 + n mod 10)])"
  by pat_completeness auto
termination
  by (relation "measure id") auto

definition numberToString :: "int \<Rightarrow> string" where
  "numberToString n =
     (if n < 0 then CHR ''-'' # natToString (nat (- n)) else natToString (nat n))"

text \<open>
  \<open>toStringJS\<close> is \<open>String(x)\<close> and, for an object or an array, the primitive that \<open>==\<close>
  compares with a string. An array joins its elements with commas, \<open>null\<close> elements as the
  empty string. A plain object gives \<open>[object Object]\<close> through
  \<open>Object.prototype.toString\<close>; an own property \<open>toString\<close> (never callable in parsed
  JSON) hides that method, and the conversion raises a TypeError.
\<close>

fun toStringJS :: "json \<Rightarrow> error + string"
  and join :: "json list \<Rightarrow> error + string" where
  "toStringJS JNull = Inr ''null''"
| "toStringJS (JBool b) = Inr (if b then ''true'' else ''false'')"
| "toStringJS (JNumber n) = Inr (numberToString n)"
| "toStringJS (JString s) = Inr s"
| "toStringJS (JArray xs) = join xs"
| "toStringJS (JObject kvs) =
     (if ''toString'' \<in> set (map fst kvs) then Inl TypeError else Inr ''[object Object]'')"
| "join [] = Inr []"
| "join (x # xs) =
     (case (if x = JNull then Inr [] else toStringJS x) of
        Inl e \<Rightarrow> Inl e
      | Inr s \<Rightarrow>
          (if xs = [] then Inr s
           else (case join xs of Inl e \<Rightarrow> Inl e | Inr r \<Rightarrow> Inr (s @ '','' @ r))))"

subsection \<open>Loose equality with a string, truthiness, property reads\<close>

text \<open>
  \<open>looseEq x s\<close> is \<open>x == s\<close> for a string \<open>s\<close>: \<open>undefined\<close> and \<open>null\<close> are unequal to
  every string, a string is compared as it is, a number with the string converted to a
  number, a boolean as the number \<open>1\<close> or \<open>0\<close>, an object or array through its primitive.
\<close>

fun looseEq :: "json option \<Rightarrow> string \<Rightarrow> error + bool" where
  "looseEq None s = Inr False"
| "looseEq (Some JNull) s = Inr False"
| "looseEq (Some (JBool b)) s = Inr (stringToNumber s = Finite (if b then 1 else 0))"
| "looseEq (Some (JNumber n)) s = Inr (stringToNumber s = Finite (of_int n))"
| "looseEq (Some (JString t)) s = Inr (t = s)"
| "looseEq (Some x) s = (case toStringJS x of Inl e \<Rightarrow> Inl e | Inr t \<Rightarrow> Inr (t = s))"

fun truthy :: "json option \<Rightarrow> bool" where
  "truthy None = False"
| "truthy (Some JNull) = False"
| "truthy (Some (JBool b)) = b"
| "truthy (Some (JNumber n)) = (n \<noteq> 0)"
| "truthy (Some (JString s)) = (s \<noteq> [])"
| "truthy (Some x) = True"

text \<open>
  \<open>field x name\<close> is the read \<open>x.name\<close> on a value other than \<open>null\<close> and \<open>undefined\<close>,
  for the names the program reads (\<open>__typename\<close>, \<open>rest_id\<close>, \<open>id\<close>, \<open>value\<close>,
  \<open>tweet_results\<close>, \<open>user_results\<close>, \<open>result\<close>), none of which a built-in prototype
  defines: the own property of an object, and \<open>undefined\<close> on anything else.
  \<open>getProp\<close> adds the TypeError of a read on \<open>null\<close> or \<open>undefined\<close>.
\<close>

fun field :: "json \<Rightarrow> string \<Rightarrow> json option" where
  "field (JObject kvs) name = map_of kvs name"
| "field x name = None"

fun getProp :: "json option \<Rightarrow> string \<Rightarrow> error + json option" where
  "getProp None name = Inl TypeError"
| "getProp (Some JNull) name = Inl TypeError"
| "getProp (Some x) name = Inr (field x name)"

section \<open>The tree search (\<open>findByFilter\<close>)\<close>

text \<open>
  The source tests \<open>Array.isArray(data)\<close> first and \<open>typeof data == 'object'\<close> second.
  \<open>typeof null\<close> is \<open>'object'\<close>, so \<open>null\<close> enters the object branch, where
  \<open>Object.keys(null)\<close> raises a TypeError. The map over an array and the loop over the
  entries of an object run in order and stop at the first error.
\<close>

fun findByFilter :: "json \<Rightarrow> string \<Rightarrow> string \<Rightarrow> error + json list"
  and findByFilter_items :: "json list \<Rightarrow> string \<Rightarrow> string \<Rightarrow> error + json list"
  and findByFilter_entries ::
    "(string \<times> json) list \<Rightarrow> string \<Rightarrow> string \<Rightarrow> error + json list" where
  "findByFilter (JArray xs) key val = findByFilter_items xs key val"
| "findByFilter (JObject kvs) key val =
     (case (if key \<in> set (map fst kvs) then looseEq (map_of kvs key) val else Inr False) of
        Inl e \<Rightarrow> Inl e
      | Inr m \<Rightarrow>
          (case findByFilter_entries kvs key val of
             Inl e \<Rightarrow> Inl e
           | Inr r \<Rightarrow> Inr ((if m then [JObject kvs] else []) @ r)))"
| "findByFilter JNull key val = Inl TypeError"
| "findByFilter (JBool b) key val = Inr []"
| "findByFilter (JNumber n) key val = Inr []"
| "findByFilter (JString s) key val = Inr []"
| "findByFilter_items [] key val = Inr []"
| "findByFilter_items (x # xs) key val =
     (case findByFilter x key val of
        Inl e \<Rightarrow> Inl e
      | Inr r \<Rightarrow>
          (case findByFilter_items xs key val of
             Inl e \<Rightarrow> Inl e
           | Inr rs \<Rightarrow> Inr (r @ rs)))"
| "findByFilter_entries [] key val = Inr []"
| "findByFilter_entries ((k, v) # kvs) key val =
     (case findByFilter v key val of
        Inl e \<Rightarrow> Inl e
      | Inr r \<Rightarrow>
          (case findByFilter_entries kvs key val of
             Inl e \<Rightarrow> Inl e
           | Inr rs \<Rightarrow> Inr (r @ rs)))"

subsection \<open>What the search is specified to return\<close>

text \<open>
  \<open>nodes T\<close> lists the mapping nodes reachable from \<open>T\<close> through sequence elements and
  mapping values, in traversal order, a mapping before the mappings below it.
  \<open>matchesFilter\<close> is the test of the source on one mapping: it has the key and the value
  at the key is loosely equal to the target. \<open>stringifiesEqual\<close> is the test in the
  specification's words: the string form of the value at the key equals the target.
\<close>

fun nodes :: "json \<Rightarrow> json list"
  and nodes_items :: "json list \<Rightarrow> json list"
  and nodes_entries :: "(string \<times> json) list \<Rightarrow> json list" where
  "nodes (JArray xs) = nodes_items xs"
| "nodes (JObject kvs) = JObject kvs # nodes_entries kvs"
| "nodes JNull = []"
| "nodes (JBool b) = []"
| "nodes (JNumber n) = []"
| "nodes (JString s) = []"
| "nodes_items [] = []"
| "nodes_items (x # xs) = nodes x @ nodes_items xs"
| "nodes_entries [] = []"
| "nodes_entries ((k, v) # kvs) = nodes v @ nodes_entries kvs"

definition matchesFilter :: "string \<Rightarrow> string \<Rightarrow> json \<Rightarrow> bool" where
  "matchesFilter key val node =
     (case node of
        JObject kvs \<Rightarrow> key \<in> set (map fst kvs) \<and> looseEq (map_of kvs key) val = Inr True
      | _ \<Rightarrow> False)"



definition comparable :: "string \<Rightarrow> json \<Rightarrow> bool" where
  "comparable key node =
     (case field node key of None \<Rightarrow> True | Some x \<Rightarrow> toStringJS x \<noteq> Inl TypeError)"

section \<open>The fetcher service\<close>

subsection \<open>Resource kinds and the authorization check\<close>

text \<open>
  The enumeration \<open>EResourceType\<close> is declared by the package \<open>rettiwt-core\<close>; these are
  the members the services name.
\<close>

datatype EResourceType =
    TWEET_DETAILS | USER_DETAILS | USER_DETAILS_BY_ID
  | TWEET_SEARCH | USER_LIKES | LIST_TWEETS | USER_TWEETS | USER_TWEETS_AND_REPLIES
  | TWEET_FAVORITERS | TWEET_RETWEETERS | USER_FOLLOWERS | USER_FOLLOWING
  | CREATE_TWEET | FAVORITE_TWEET | CREATE_RETWEET

definition checkAuthorization :: "bool \<Rightarrow> EResourceType \<Rightarrow> error + unit" where
  "checkAuthorization authenticated resourceType =
     (if resourceType \<noteq> TWEET_DETAILS \<and> resourceType \<noteq> USER_DETAILS
         \<and> resourceType \<noteq> USER_TWEETS \<and> authenticated = False
      then Inl RESOURCE_NOT_ALLOWED else Inr ())"

text \<open>
  The kinds the extraction step reads as one entity found by its own type tag (the
  single-post lookup and the two account lookups), the timeline kinds and the connection
  kinds, as \<open>extractData\<close> groups them.
\<close>

definition singleEntityKind :: "EResourceType \<Rightarrow> bool" where
  "singleEntityKind t = (t \<in> {TWEET_DETAILS, USER_DETAILS, USER_DETAILS_BY_ID})"

definition timelineKind :: "EResourceType \<Rightarrow> bool" where
  "timelineKind t =
     (t \<in> {TWEET_SEARCH, USER_LIKES, LIST_TWEETS, USER_TWEETS, USER_TWEETS_AND_REPLIES})"

definition connectionKind :: "EResourceType \<Rightarrow> bool" where
  "connectionKind t =
     (t \<in> {TWEET_FAVORITERS, TWEET_RETWEETERS, USER_FOLLOWERS, USER_FOLLOWING})"

subsection \<open>Extraction\<close>

text \<open>
  \<open>unwrap outer item\<close> is the projection \<open>item.outer.result\<close> of the source: the first
  read is on a matched object, the second raises a TypeError when \<open>item.outer\<close> is absent
  or \<open>null\<close>. \<open>unwrapAll\<close> is the \<open>map\<close> over the matches, in order.
\<close>

definition unwrap :: "string \<Rightarrow> json \<Rightarrow> error + json option" where
  "unwrap outer item =
     (case getProp (Some item) outer of
        Inl e \<Rightarrow> Inl e
      | Inr w \<Rightarrow> getProp w ''result'')"

fun unwrapAll :: "string \<Rightarrow> json list \<Rightarrow> error + json option list" where
  "unwrapAll outer [] = Inr []"
| "unwrapAll outer (item # items) =
     (case unwrap outer item of
        Inl e \<Rightarrow> Inl e
      | Inr r \<Rightarrow>
          (case unwrapAll outer items of
             Inl e \<Rightarrow> Inl e
           | Inr rs \<Rightarrow> Inr (r # rs)))"

text \<open>
  The required fragments of each kind, then the cursor
  \<open>findByFilter(data, 'cursorType', 'Bottom')[0]?.value\<close>, read for every kind. The
  result is the object \<open>{required, next}\<close> as a pair.
\<close>

definition extractRequired :: "json \<Rightarrow> EResourceType \<Rightarrow> error + json option list" where
  "extractRequired data type =
     (if type = TWEET_DETAILS then
        map_sum id (map Some) (findByFilter data ''__typename'' ''Tweet'')
      else if type = USER_DETAILS \<or> type = USER_DETAILS_BY_ID then
        map_sum id (map Some) (findByFilter data ''__typename'' ''User'')
      else if type = TWEET_SEARCH \<or> type = USER_LIKES \<or> type = LIST_TWEETS
              \<or> type = USER_TWEETS \<or> type = USER_TWEETS_AND_REPLIES then
        (case findByFilter data ''__typename'' ''TimelineTweet'' of
           Inl e \<Rightarrow> Inl e
         | Inr items \<Rightarrow> unwrapAll ''tweet_results'' items)
      else if type = TWEET_FAVORITERS \<or> type = TWEET_RETWEETERS
              \<or> type = USER_FOLLOWERS \<or> type = USER_FOLLOWING then
        (case findByFilter data ''__typename'' ''TimelineUser'' of
           Inl e \<Rightarrow> Inl e
         | Inr items \<Rightarrow> unwrapAll ''user_results'' items)
      else Inr [])"

definition extractNext :: "json \<Rightarrow> error + json option" where
  "extractNext data =
     (case findByFilter data ''cursorType'' ''Bottom'' of
        Inl e \<Rightarrow> Inl e
      | Inr [] \<Rightarrow> Inr None
      | Inr (c # cs) \<Rightarrow> Inr (field c ''value''))"

definition extractData ::
  "json \<Rightarrow> EResourceType \<Rightarrow> error + (json option list \<times> json option)" where
  "extractData data type =
     (case extractRequired data type of
        Inl e \<Rightarrow> Inl e
      | Inr required \<Rightarrow>
          (case extractNext data of
             Inl e \<Rightarrow> Inl e
           | Inr nxt \<Rightarrow> Inr (required, nxt)))"

subsection \<open>Deserialization\<close>

text \<open>
  Modelled from the spec: the classes \<open>Tweet\<close>, \<open>User\<close> and \<open>CursoredData\<close> of
  \<open>models/public\<close> are not among the sources. The specification makes the conversion of
  a fragment a pure mapping that does not raise, and the cursored result the pair of the
  entity list and the cursor; an entity is represented by the fragment it was built from,
  its identifier is the fragment's \<open>rest_id\<close>.
\<close>

datatype entity = Tweet json | User json

datatype CursoredData = CursoredData (list: "entity list") (next_cursor: json)

definition entityId :: "entity \<Rightarrow> json option" where
  "entityId e = (case e of Tweet raw \<Rightarrow> field raw ''rest_id'' | User raw \<Rightarrow> field raw ''rest_id'')"

text \<open>
  One turn of the loop of \<open>deserializeData\<close>: the two guarded branches, in the order of
  the source. \<open>item && \<dots>\<close> stops at a falsy item, so the reads that follow are on a value
  that is neither \<open>null\<close> nor \<open>undefined\<close>.
\<close>

fun deserializeItem :: "json option \<Rightarrow> error + entity option" where
  "deserializeItem None = Inr None"
| "deserializeItem (Some item) =
     (if \<not> truthy (Some item) then Inr None
      else
        (case looseEq (field item ''__typename'') ''Tweet'' of
           Inl e \<Rightarrow> Inl e
         | Inr isTweet \<Rightarrow>
             if isTweet \<and> truthy (field item ''rest_id'') then Inr (Some (Tweet item))
             else
               (case looseEq (field item ''__typename'') ''User'' of
                  Inl e \<Rightarrow> Inl e
                | Inr isUser \<Rightarrow>
                    if isUser \<and> truthy (field item ''rest_id'') \<and> truthy (field item ''id'')
                    then Inr (Some (User item))
                    else Inr None)))"

fun deserializeList :: "json option list \<Rightarrow> error + entity list" where
  "deserializeList [] = Inr []"
| "deserializeList (item # items) =
     (case deserializeItem item of
        Inl e \<Rightarrow> Inl e
      | Inr r \<Rightarrow>
          (case deserializeList items of
             Inl e \<Rightarrow> Inl e
           | Inr rs \<Rightarrow> Inr ((case r of None \<Rightarrow> [] | Some x \<Rightarrow> [x]) @ rs)))"

text \<open>The default \<open>next = ''\<close> of the parameter replaces \<open>undefined\<close> only.\<close>

definition deserializeData :: "json option list \<Rightarrow> json option \<Rightarrow> error + CursoredData" where
  "deserializeData extractedData nxt =
     (case deserializeList extractedData of
        Inl e \<Rightarrow> Inl e
      | Inr deserializedList \<Rightarrow>
          Inr (CursoredData deserializedList (case nxt of None \<Rightarrow> JString [] | Some c \<Rightarrow> c)))"

text \<open>The fragments that pass one of the two shape checks.\<close>

definition qualifiesTweet :: "json option \<Rightarrow> bool" where
  "qualifiesTweet item =
     (case item of
        None \<Rightarrow> False
      | Some x \<Rightarrow> truthy item \<and> looseEq (field x ''__typename'') ''Tweet'' = Inr True
                  \<and> truthy (field x ''rest_id''))"

definition qualifiesUser :: "json option \<Rightarrow> bool" where
  "qualifiesUser item =
     (case item of
        None \<Rightarrow> False
      | Some x \<Rightarrow> truthy item \<and> looseEq (field x ''__typename'') ''User'' = Inr True
                  \<and> truthy (field x ''rest_id'') \<and> truthy (field x ''id''))"

definition toEntity :: "json option \<Rightarrow> entity" where
  "toEntity item = (if qualifiesTweet item then Tweet (the item) else User (the item))"

definition tagComparable :: "json option \<Rightarrow> bool" where
  "tagComparable item = (case item of None \<Rightarrow> True | Some x \<Rightarrow> comparable ''__typename'' x)"

subsection \<open>Requests\<close>

text \<open>
  The collaborators of the service, outside the sources: the request builder of
  \<open>rettiwt-core\<close> (an opaque descriptor for a kind and its arguments, whose \<open>endpoint\<close> is
  the kind), the guest credential of \<open>rettiwt-auth\<close>, the transport \<open>axios\<close> and the error
  handler, whose \<open>handle\<close> may raise an error of its own (\<open>Some\<close>) before the transport
  error is rethrown. Logging does not touch the control flow and is left out.
\<close>

datatype credential = AuthCredential string | GuestCredential string

type_synonym Args = "(string \<times> string) list"

record Request =
  endpoint :: EResourceType
  descriptor :: string

record collaborators =
  describe :: "EResourceType \<Rightarrow> Args \<Rightarrow> string"
  getGuestCredential :: "error + credential"
  axios :: "Request \<Rightarrow> credential \<Rightarrow> error + json"
  handle :: "error \<Rightarrow> error option"

definition newRequest :: "collaborators \<Rightarrow> EResourceType \<Rightarrow> Args \<Rightarrow> Request" where
  "newRequest env resourceType args =
     \<lparr>endpoint = resourceType, descriptor = describe env resourceType args\<rparr>"

text \<open>
  The state of a service: its credential, set by the constructor or by the first request
  of a guest, its fixed authentication flag, and a counter of the calls of the transport,
  which the source does not hold and the model keeps to state what was sent.
\<close>

record FetcherService =
  cred :: "credential option"
  isAuthenticated :: bool
  calls :: nat

record IRettiwtConfig =
  apiKey :: "string option"
  guestKey :: "string option"

definition given :: "string option \<Rightarrow> bool" where
  "given k = (case k of None \<Rightarrow> False | Some s \<Rightarrow> s \<noteq> [])"

definition newFetcherService :: "IRettiwtConfig \<Rightarrow> FetcherService" where
  "newFetcherService config =
     \<lparr>cred = (if given (apiKey config) then Some (AuthCredential (the (apiKey config)))
              else if given (guestKey config) then Some (GuestCredential (the (guestKey config)))
              else None),
      isAuthenticated = (if given (apiKey config) then True else False),
      calls = 0\<rparr>"

definition request ::
  "collaborators \<Rightarrow> FetcherService \<Rightarrow> Request \<Rightarrow> (error + json) \<times> FetcherService" where
  "request env s config =
     (case checkAuthorization (isAuthenticated s) (endpoint config) of
        Inl e \<Rightarrow> (Inl e, s)
      | Inr u \<Rightarrow>
          (case (case cred s of Some c \<Rightarrow> Inr c | None \<Rightarrow> getGuestCredential env) of
             Inl e \<Rightarrow> (Inl e, s)
           | Inr c \<Rightarrow>
               (let s' = s\<lparr>cred := Some c, calls := calls s + 1\<rparr> in
                case axios env config c of
                  Inr body \<Rightarrow> (Inr body, s')
                | Inl e \<Rightarrow> (Inl (case handle env e of Some e' \<Rightarrow> e' | None \<Rightarrow> e), s'))))"

definition fetch ::
  "collaborators \<Rightarrow> FetcherService \<Rightarrow> EResourceType \<Rightarrow> Args
    \<Rightarrow> (error + CursoredData) \<times> FetcherService" where
  "fetch env s resourceType args =
     (case request env s (newRequest env resourceType args) of
        (Inl e, s') \<Rightarrow> (Inl e, s')
      | (Inr res, s') \<Rightarrow>
          (case extractData res resourceType of
             Inl e \<Rightarrow> (Inl e, s')
           | Inr (required, nxt) \<Rightarrow> (deserializeData required nxt, s')))"


subsection \<open>The tweet service\<close>

text \<open>\<open>details\<close> returns \<open>data.list[0]\<close>, which is \<open>undefined\<close> on an empty list.\<close>

definition details ::
  "collaborators \<Rightarrow> FetcherService \<Rightarrow> string \<Rightarrow> (error + entity option) \<times> FetcherService" where
  "details env s ident =
     (case fetch env s TWEET_DETAILS [(''id'', ident)] of
        (Inl e, s') \<Rightarrow> (Inl e, s')
      | (Inr data, s') \<Rightarrow> (Inr (case list data of [] \<Rightarrow> None | x # xs \<Rightarrow> Some x), s'))"

subsection \<open>The table of the extraction step and the shape checks, as predicates\<close>

text \<open>
  For a timeline or connection kind: the type tag of the container fragments that are
  searched and the field under which a container wraps its entity.
\<close>

definition containerTag :: "EResourceType \<Rightarrow> string" where
  "containerTag t = (if timelineKind t then ''TimelineTweet'' else ''TimelineUser'')"

definition wrapperField :: "EResourceType \<Rightarrow> string" where
  "wrapperField t = (if timelineKind t then ''tweet_results'' else ''user_results'')"

definition qualifies :: "json option \<Rightarrow> bool" where
  "qualifies item = (qualifiesTweet item \<or> qualifiesUser item)"

definition bottomCursor :: "json \<Rightarrow> json option" where
  "bottomCursor data = find (matchesFilter ''cursorType'' ''Bottom'') (nodes data)"

section \<open>Sample responses\<close>


definition post123 :: json where
  "post123 =
     JObject [(''__typename'', JString ''Tweet''), (''rest_id'', JString ''123''),
              (''text'', JString ''hi'')]"

definition scenarioA :: json where
  "scenarioA = JObject [(''data'', JObject [(''tweet'', JObject [(''result'', post123)])])]"

definition postA :: json where
  "postA = JObject [(''__typename'', JString ''Tweet''), (''rest_id'', JString ''1'')]"

definition postB :: json where
  "postB = JObject [(''__typename'', JString ''Tweet''), (''rest_id'', JString ''2'')]"

definition timelineTweet :: "json \<Rightarrow> json" where
  "timelineTweet t =
     JObject [(''__typename'', JString ''TimelineTweet''),
              (''tweet_results'', JObject [(''result'', t)])]"

definition bottom :: "string \<Rightarrow> json" where
  "bottom v = JObject [(''cursorType'', JString ''Bottom''), (''value'', JString v)]"

definition scenarioB :: json where
  "scenarioB =
     JObject [(''entries'', JArray [timelineTweet postA, timelineTweet postB, bottom ''abc|''])]"

definition accountOk :: json where
  "accountOk =
     JObject [(''__typename'', JString ''User''), (''id'', JString ''VXNlcjo3''),
              (''rest_id'', JString ''7'')]"

definition accountNoId :: json where
  "accountNoId = JObject [(''__typename'', JString ''User''), (''rest_id'', JString ''8'')]"

definition detailsWithCursor :: json where
  "detailsWithCursor = JObject [(''tweet'', post123), (''cursor'', bottom ''abc'')]"

definition brokenPage :: json where
  "brokenPage =
     JArray [timelineTweet postA, JObject [(''__typename'', JString ''TimelineTweet'')]]"

definition emptyWrapperPage :: json where
  "emptyWrapperPage =
     JArray [timelineTweet postA,
             JObject [(''__typename'', JString ''TimelineTweet''), (''tweet_results'', JObject [])]]"

definition serving :: "json \<Rightarrow> collaborators" where
  "serving body =
     \<lparr>describe = (\<lambda>t a. []),
      getGuestCredential = Inr (GuestCredential ''guest''),
      axios = (\<lambda>rq c. Inr body),
      handle = (\<lambda>e. None)\<rparr>"

definition guestService :: FetcherService where
  "guestService = newFetcherService \<lparr>apiKey = None, guestKey = None\<rparr>"

definition servedGuest :: FetcherService where
  "servedGuest = guestService\<lparr>cred := Some (GuestCredential ''guest''), calls := 1\<rparr>"

section \<open>Properties of the tree search\<close>

lemma toStringJS_error:
  "toStringJS x = Inl e \<Longrightarrow> e = TypeError"
  "join xs = Inl e \<Longrightarrow> e = TypeError"
  by (induction x and xs rule: toStringJS_join.induct) (auto split: if_splits sum.splits)

lemma looseEq_error: "looseEq x s = Inl e \<Longrightarrow> e = TypeError"
  by (cases "(x, s)" rule: looseEq.cases) (auto split: sum.splits if_splits dest: toStringJS_error)

lemma looseEq_total:
  assumes "(case x of None \<Rightarrow> True | Some y \<Rightarrow> toStringJS y \<noteq> Inl TypeError)"
  shows "\<exists>b. looseEq x s = Inr b"
proof (cases "looseEq x s")
  case (Inl e)
  then have e: "e = TypeError" by (rule looseEq_error)
  with Inl assms show ?thesis
    by (cases "(x, s)" rule: looseEq.cases) (auto split: sum.splits if_splits)
next
  case (Inr b)
  then show ?thesis by blast
qed

lemma findByFilter_sound:
  "findByFilter T key val = Inr r \<Longrightarrow> r = filter (matchesFilter key val) (nodes T)"
  "findByFilter_items xs key val = Inr r \<Longrightarrow> r = filter (matchesFilter key val) (nodes_items xs)"
  "findByFilter_entries kvs key val = Inr r \<Longrightarrow> r = filter (matchesFilter key val) (nodes_entries kvs)"
proof (induction T key val and xs key val and kvs key val arbitrary: r and r and r
       rule: findByFilter_findByFilter_items_findByFilter_entries.induct)
  case (2 kvs key val)
  then show ?case
    by (auto simp: matchesFilter_def split: sum.splits if_splits)
qed (auto split: sum.splits)






text \<open>
  C6. A \<open>null\<close> as a mapping value, as a sequence element or as the searched value makes
  the search raise a TypeError; the match found before it is lost with the rest. The empty
  sequence, the empty mapping and a mapping without the key give the empty list.
\<close>

theorem findByFilter_null_raises:
  "findByFilter (JObject [(''a'', JNull)]) ''k'' ''v'' = Inl TypeError
   \<and> findByFilter (JArray [JObject [(''k'', JString ''v'')], JNull]) ''k'' ''v'' = Inl TypeError
   \<and> findByFilter JNull ''k'' ''v'' = Inl TypeError
   \<and> findByFilter (JArray []) ''k'' ''v'' = Inr []
   \<and> findByFilter (JObject []) ''k'' ''v'' = Inr []
   \<and> findByFilter (JObject [(''a'', JString ''v'')]) ''k'' ''v'' = Inr []"
  by simp





section \<open>Properties of deserialization\<close>

lemma deserializeItem_sound:
  "deserializeItem item = Inr r \<Longrightarrow> r = (if qualifies item then Some (toEntity item) else None)"
  by (cases item)
     (auto simp: qualifies_def qualifiesTweet_def qualifiesUser_def toEntity_def
           split: sum.splits if_splits)

lemma deserializeItem_total:
  assumes "tagComparable item"
  shows "\<exists>r. deserializeItem item = Inr r"
proof (cases item)
  case None
  then show ?thesis by simp
next
  case (Some x)
  with assms have "case field x ''__typename'' of None \<Rightarrow> True | Some y \<Rightarrow> toStringJS y \<noteq> Inl TypeError"
    by (simp add: tagComparable_def comparable_def)
  then have "\<exists>b. looseEq (field x ''__typename'') s = Inr b" for s
    by (rule looseEq_total)
  then obtain b1 b2 where "looseEq (field x ''__typename'') ''Tweet'' = Inr b1"
    "looseEq (field x ''__typename'') ''User'' = Inr b2" by metis
  with Some show ?thesis by simp
qed

lemma deserializeList_sound:
  "deserializeList items = Inr es \<Longrightarrow> es = map toEntity (filter qualifies items)"
proof (induction items arbitrary: es)
  case Nil
  then show ?case by simp
next
  case (Cons item items)
  then show ?case
    by (auto split: sum.splits dest!: deserializeItem_sound)
qed

lemma deserializeList_total:
  "\<forall>item\<in>set items. tagComparable item \<Longrightarrow> \<exists>es. deserializeList items = Inr es"
proof (induction items)
  case Nil
  then show ?case by simp
next
  case (Cons item items)
  then obtain es where es: "deserializeList items = Inr es" by auto
  from Cons.prems obtain r where r: "deserializeItem item = Inr r"
    using deserializeItem_total [of item] by auto
  show ?case by (simp add: es r)
qed

text \<open>
  C4. The entities are those of the qualifying fragments, in their order, so each
  fragment that does not qualify shortens the list by one; deserialization returns on
  fragments whose type tag converts to a primitive. A fragment kept as a post carries
  the tag \<open>Tweet\<close> and a truthy \<open>rest_id\<close>; a fragment kept as an account carries the tag
  \<open>User\<close>, a truthy \<open>rest_id\<close> and a truthy \<open>id\<close>.
\<close>

theorem deserializeData_keeps_qualifying:
  "(\<forall>d. deserializeData extractedData nxt = Inr d \<longrightarrow>
        list d = map toEntity (filter qualifies extractedData)
      \<and> length (list d) + length (filter (\<lambda>i. \<not> qualifies i) extractedData) = length extractedData)
   \<and> ((\<forall>item\<in>set extractedData. tagComparable item) \<longrightarrow>
        (\<exists>d. deserializeData extractedData nxt = Inr d))
   \<and> (\<forall>item. qualifiesTweet item \<longrightarrow>
        toEntity item = Tweet (the item)
      \<and> (\<exists>x tag rid. item = Some x \<and> field x ''__typename'' = Some tag
            \<and> looseEq (Some tag) ''Tweet'' = Inr True
            \<and> field x ''rest_id'' = Some rid \<and> truthy (Some rid)))
   \<and> (\<forall>item. qualifies item \<and> \<not> qualifiesTweet item \<longrightarrow>
        toEntity item = User (the item)
      \<and> (\<exists>x tag rid aid. item = Some x \<and> field x ''__typename'' = Some tag
            \<and> looseEq (Some tag) ''User'' = Inr True
            \<and> field x ''rest_id'' = Some rid \<and> truthy (Some rid)
            \<and> field x ''id'' = Some aid \<and> truthy (Some aid)))"
proof (intro conjI allI impI)
  fix d
  assume d: "deserializeData extractedData nxt = Inr d"
  then show l: "list d = map toEntity (filter qualifies extractedData)"
    by (auto simp: deserializeData_def split: sum.splits dest: deserializeList_sound)
  show "length (list d) + length (filter (\<lambda>i. \<not> qualifies i) extractedData) = length extractedData"
    unfolding l by (simp add: sum_length_filter_compl)
next
  assume "\<forall>item\<in>set extractedData. tagComparable item"
  then obtain es where "deserializeList extractedData = Inr es"
    using deserializeList_total by blast
  then show "\<exists>d. deserializeData extractedData nxt = Inr d"
    by (simp add: deserializeData_def)
next
  fix item
  assume q: "qualifiesTweet item"
  then show "toEntity item = Tweet (the item)" by (simp add: toEntity_def)
  from q obtain x where x: "item = Some x" "looseEq (field x ''__typename'') ''Tweet'' = Inr True"
      "truthy (field x ''rest_id'')"
    by (auto simp: qualifiesTweet_def split: option.splits)
  from x(2) obtain tag where "field x ''__typename'' = Some tag"
    by (cases "field x ''__typename''") auto
  moreover from x(3) obtain rid where "field x ''rest_id'' = Some rid"
    by (cases "field x ''rest_id''") auto
  ultimately show "\<exists>x tag rid. item = Some x \<and> field x ''__typename'' = Some tag
            \<and> looseEq (Some tag) ''Tweet'' = Inr True
            \<and> field x ''rest_id'' = Some rid \<and> truthy (Some rid)"
    using x by auto
next
  fix item
  assume "qualifies item \<and> \<not> qualifiesTweet item"
  then have q: "qualifiesUser item" and n: "\<not> qualifiesTweet item" by (auto simp: qualifies_def)
  from n show "toEntity item = User (the item)" by (simp add: toEntity_def)
  from q obtain x where x: "item = Some x" "looseEq (field x ''__typename'') ''User'' = Inr True"
      "truthy (field x ''rest_id'')" "truthy (field x ''id'')"
    by (auto simp: qualifiesUser_def split: option.splits)
  from x(2) obtain tag where "field x ''__typename'' = Some tag"
    by (cases "field x ''__typename''") auto
  moreover from x(3) obtain rid where "field x ''rest_id'' = Some rid"
    by (cases "field x ''rest_id''") auto
  moreover from x(4) obtain aid where "field x ''id'' = Some aid"
    by (cases "field x ''id''") auto
  ultimately show "\<exists>x tag rid aid. item = Some x \<and> field x ''__typename'' = Some tag
            \<and> looseEq (Some tag) ''User'' = Inr True
            \<and> field x ''rest_id'' = Some rid \<and> truthy (Some rid)
            \<and> field x ''id'' = Some aid \<and> truthy (Some aid)"
    using x by auto
qed

theorem deserializeData_keeps_qualifying_witness:
  "list_all tagComparable [Some post123, Some accountNoId, None, Some accountOk]
   \<and> deserializeData [Some post123, Some accountNoId, None, Some accountOk] None
       = Inr (CursoredData [Tweet post123, User accountOk] (JString []))
   \<and> qualifiesTweet (Some post123) \<and> toEntity (Some post123) = Tweet post123
   \<and> qualifies (Some accountOk) \<and> \<not> qualifiesTweet (Some accountOk)
   \<and> toEntity (Some accountOk) = User accountOk
   \<and> \<not> qualifies (Some accountNoId) \<and> \<not> qualifies None"
proof -
  let ?L = "[Some post123, Some accountNoId, None, Some accountOk]"
  note T = deserializeData_keeps_qualifying [of ?L None]
  have c: "\<forall>item\<in>set ?L. tagComparable item"
    by (simp add: post123_def accountOk_def accountNoId_def tagComparable_def comparable_def)
  have q1: "qualifiesTweet (Some post123)"
    by (simp add: post123_def qualifiesTweet_def)
  have q2: "qualifies (Some accountOk)" "\<not> qualifiesTweet (Some accountOk)"
    by (simp_all add: accountOk_def qualifies_def qualifiesTweet_def qualifiesUser_def)
  have q3: "\<not> qualifies (Some accountNoId)" "\<not> qualifies None"
    by (simp_all add: accountNoId_def qualifies_def qualifiesTweet_def qualifiesUser_def)
  have q: "filter qualifies ?L = [Some post123, Some accountOk]"
    using q1 q2 q3 by (simp add: qualifies_def)
  from T [THEN conjunct2, THEN conjunct1, THEN mp, OF c]
  obtain d where d: "deserializeData ?L None = Inr d" by blast
  from T [THEN conjunct1, THEN spec, THEN mp, OF d]
  have "list d = map toEntity (filter qualifies ?L)" by simp
  then have "list d = map toEntity [Some post123, Some accountOk]"
    by (simp only: q)
  then have l: "list d = [Tweet post123, User accountOk]"
    using q1 q2 by (simp add: toEntity_def)
  have n: "next_cursor d = JString []"
    using d by (auto simp: deserializeData_def split: sum.splits)
  have "d = CursoredData [Tweet post123, User accountOk] (JString [])"
    using l n by (cases d) simp
  moreover
  from T [THEN conjunct2, THEN conjunct2, THEN conjunct1, THEN spec, THEN mp, OF q1]
  have "toEntity (Some post123) = Tweet post123" by simp
  moreover
  from T [THEN conjunct2, THEN conjunct2, THEN conjunct2, THEN spec, THEN mp, OF conjI, OF q2]
  have "toEntity (Some accountOk) = User accountOk" by simp
  ultimately show ?thesis using d c q1 q2 q3 by (simp add: list_all_iff)
qed

section \<open>Properties of extraction and of the fetch pipeline\<close>

lemma filter_case_find:
  "(case filter P xs of [] \<Rightarrow> a | c # cs \<Rightarrow> f c) = (case find P xs of None \<Rightarrow> a | Some c \<Rightarrow> f c)"
  by (induction xs) auto

lemma extractNext_sound:
  assumes "extractNext data = Inr nxt"
  shows "nxt = (case bottomCursor data of None \<Rightarrow> None | Some c \<Rightarrow> field c ''value'')"
proof -
  from assms obtain cs where cs: "findByFilter data ''cursorType'' ''Bottom'' = Inr cs"
    and n: "nxt = (case cs of [] \<Rightarrow> None | c # cs' \<Rightarrow> field c ''value'')"
    by (auto simp: extractNext_def split: sum.splits list.splits)
  from findByFilter_sound(1) [OF cs]
  have "cs = filter (matchesFilter ''cursorType'' ''Bottom'') (nodes data)" .
  with n show ?thesis
    by (simp only: bottomCursor_def filter_case_find)
qed

lemma extractData_parts:
  "extractData data type = Inr (required, nxt) \<Longrightarrow>
     extractRequired data type = Inr required \<and> extractNext data = Inr nxt"
  by (auto simp: extractData_def split: sum.splits)

lemma deserializeData_next:
  "deserializeData required nxt = Inr d \<Longrightarrow>
     next_cursor d = (case nxt of None \<Rightarrow> JString [] | Some c \<Rightarrow> c)"
  by (auto simp: deserializeData_def split: sum.splits)

lemma fetch_returns:
  assumes "fetch env s type args = (Inr d, s')"
  shows "\<exists>res required nxt.
           request env s (newRequest env type args) = (Inr res, s')
         \<and> extractData res type = Inr (required, nxt)
         \<and> deserializeData required nxt = Inr d"
proof (cases "request env s (newRequest env type args)")
  case (Pair r s1)
  show ?thesis
  proof (cases r)
    case (Inl e)
    with Pair assms show ?thesis by (simp add: fetch_def)
  next
    case (Inr res)
    with Pair assms show ?thesis
      by (auto simp: fetch_def split: sum.splits)
  qed
qed

lemma request_served:
  assumes "checkAuthorization (isAuthenticated s) (endpoint rq) = Inr ()"
    and "cred s = Some c" and "axios env rq c = Inr body"
  shows "request env s rq = (Inr body, s\<lparr>cred := Some c, calls := calls s + 1\<rparr>)"
  using assms by (simp add: request_def)

lemma guest_request_served:
  "t \<in> {TWEET_DETAILS, USER_DETAILS, USER_TWEETS} \<Longrightarrow>
     request (serving body) guestService (newRequest (serving body) t args) = (Inr body, servedGuest)"
  by (auto simp: request_def serving_def guestService_def servedGuest_def newFetcherService_def
        newRequest_def checkAuthorization_def given_def)

lemma bottomCursor_scenarioB: "bottomCursor scenarioB = Some (bottom ''abc|'')"
  by (simp add: bottomCursor_def scenarioB_def timelineTweet_def postA_def postB_def bottom_def
        matchesFilter_def)

lemma extractData_scenarioB:
  "timelineKind t \<Longrightarrow> extractData scenarioB t = Inr ([Some postA, Some postB], Some (JString ''abc|''))"
  by (auto simp: timelineKind_def extractData_def extractRequired_def extractNext_def unwrap_def
        scenarioB_def timelineTweet_def postA_def postB_def bottom_def)

lemma deserialize_postA_postB:
  "deserializeData [Some postA, Some postB] nxt
     = Inr (CursoredData [Tweet postA, Tweet postB] (case nxt of None \<Rightarrow> JString [] | Some c \<Rightarrow> c))"
  by (simp add: deserializeData_def postA_def postB_def)

lemma bottomCursor_scenarioA: "bottomCursor scenarioA = None"
  by (simp add: bottomCursor_def scenarioA_def post123_def matchesFilter_def)

lemma extractData_scenarioA:
  "extractData scenarioA TWEET_DETAILS = Inr ([Some post123], None)"
  by (simp add: extractData_def extractRequired_def extractNext_def scenarioA_def post123_def)

lemma deserialize_post123:
  "deserializeData [Some post123] nxt
     = Inr (CursoredData [Tweet post123] (case nxt of None \<Rightarrow> JString [] | Some c \<Rightarrow> c))"
  by (simp add: deserializeData_def post123_def)

text \<open>
  C2. The cursor that extraction returns is the \<open>value\<close> field of the first mapping in
  traversal order whose \<open>cursorType\<close> equals \<open>Bottom\<close>, and \<open>undefined\<close> when there is
  none; the cursor of the result that \<open>fetch\<close> returns is that value, and the empty string
  when the body holds no such mapping (or the first one has no \<open>value\<close>). This holds for
  every resource kind.
\<close>

theorem cursor_of_first_bottom_fragment:
  "(\<forall>required nxt. extractData data type = Inr (required, nxt) \<longrightarrow>
       nxt = (case bottomCursor data of None \<Rightarrow> None | Some c \<Rightarrow> field c ''value''))
   \<and> (\<forall>res s' d. request env s (newRequest env type args) = (Inr res, s')
          \<and> fetch env s type args = (Inr d, s') \<longrightarrow>
       next_cursor d =
         (case bottomCursor res of
            None \<Rightarrow> JString []
          | Some c \<Rightarrow> (case field c ''value'' of None \<Rightarrow> JString [] | Some v \<Rightarrow> v)))"
proof (intro conjI allI impI)
  fix required nxt
  assume "extractData data type = Inr (required, nxt)"
  then have "extractNext data = Inr nxt" by (simp add: extractData_parts)
  then show "nxt = (case bottomCursor data of None \<Rightarrow> None | Some c \<Rightarrow> field c ''value'')"
    by (rule extractNext_sound)
next
  fix res s' d
  assume a: "request env s (newRequest env type args) = (Inr res, s')
               \<and> fetch env s type args = (Inr d, s')"
  then obtain res' required nxt where
    r: "request env s (newRequest env type args) = (Inr res', s')"
    and e: "extractData res' type = Inr (required, nxt)"
    and d: "deserializeData required nxt = Inr d"
    using fetch_returns [of env s type args d s'] by blast
  from a r have "res' = res" by simp
  with e have "extractNext res = Inr nxt" by (simp add: extractData_parts)
  then have "nxt = (case bottomCursor res of None \<Rightarrow> None | Some c \<Rightarrow> field c ''value'')"
    by (rule extractNext_sound)
  with deserializeData_next [OF d]
  show "next_cursor d =
         (case bottomCursor res of
            None \<Rightarrow> JString []
          | Some c \<Rightarrow> (case field c ''value'' of None \<Rightarrow> JString [] | Some v \<Rightarrow> v))"
    by (simp split: option.splits)
qed

theorem cursor_of_first_bottom_fragment_witness:
  "extractData scenarioB USER_TWEETS = Inr ([Some postA, Some postB], Some (JString ''abc|''))
   \<and> bottomCursor scenarioB = Some (bottom ''abc|'')
   \<and> field (bottom ''abc|'') ''value'' = Some (JString ''abc|'')
   \<and> request (serving scenarioA) guestService (newRequest (serving scenarioA) TWEET_DETAILS [])
       = (Inr scenarioA, servedGuest)
   \<and> fetch (serving scenarioA) guestService TWEET_DETAILS []
       = (Inr (CursoredData [Tweet post123] (JString [])), servedGuest)
   \<and> bottomCursor scenarioA = None"
proof -
  note T = cursor_of_first_bottom_fragment
  have e: "extractData scenarioB USER_TWEETS = Inr ([Some postA, Some postB], Some (JString ''abc|''))"
    by (simp add: extractData_scenarioB timelineKind_def)
  from T [of scenarioB USER_TWEETS, THEN conjunct1, THEN spec, THEN spec, THEN mp, OF e]
  have v: "Some (JString ''abc|'')
            = (case bottomCursor scenarioB of None \<Rightarrow> None | Some c \<Rightarrow> field c ''value'')" .
  have r: "request (serving scenarioA) guestService (newRequest (serving scenarioA) TWEET_DETAILS [])
       = (Inr scenarioA, servedGuest)"
    by (simp add: guest_request_served)
  have f: "fetch (serving scenarioA) guestService TWEET_DETAILS []
       = (Inr (CursoredData [Tweet post123] (JString [])), servedGuest)"
    by (simp add: fetch_def r extractData_scenarioA deserialize_post123)
  from T [of _ TWEET_DETAILS "serving scenarioA" guestService "[]", THEN conjunct2,
      THEN spec, THEN spec, THEN spec, THEN mp, OF conjI, OF r f]
  have "next_cursor (CursoredData [Tweet post123] (JString [])) =
         (case bottomCursor scenarioA of
            None \<Rightarrow> JString []
          | Some c \<Rightarrow> (case field c ''value'' of None \<Rightarrow> JString [] | Some v \<Rightarrow> v))" .
  with v e r f show ?thesis
    by (simp add: bottomCursor_scenarioB bottomCursor_scenarioA bottom_def)
qed

lemma getProp_value: "x \<noteq> JNull \<Longrightarrow> getProp (Some x) name = Inr (field x name)"
  by (cases x) simp_all

lemma unwrap_sound:
  assumes "unwrap outer item = Inr r"
  shows "\<exists>w. field item outer = Some w \<and> w \<noteq> JNull \<and> r = field w ''result''"
proof -
  from assms have i: "item \<noteq> JNull"
    by (auto simp: unwrap_def)
  with assms have g: "getProp (field item outer) ''result'' = Inr r"
    by (simp add: unwrap_def getProp_value)
  then obtain w where w: "field item outer = Some w"
    by (cases "field item outer") auto
  with g have "w \<noteq> JNull" by auto
  with g w show ?thesis by (simp add: getProp_value)
qed

lemma unwrap_total:
  "field item outer = Some w \<Longrightarrow> w \<noteq> JNull \<Longrightarrow> unwrap outer item = Inr (field w ''result'')"
  by (cases item) (auto simp: unwrap_def getProp_value)

lemma unwrapAll_sound:
  "unwrapAll outer items = Inr rs \<Longrightarrow>
     list_all2 (\<lambda>item r. \<exists>w. field item outer = Some w \<and> w \<noteq> JNull \<and> r = field w ''result'')
       items rs"
proof (induction items arbitrary: rs)
  case Nil
  then show ?case by simp
next
  case (Cons item items)
  from Cons.prems obtain r rs' where r: "unwrap outer item = Inr r"
    and rs': "unwrapAll outer items = Inr rs'" and rs: "rs = r # rs'"
    by (auto split: sum.splits)
  from unwrap_sound [OF r] Cons.IH [OF rs'] rs show ?case by simp
qed

lemma unwrapAll_total:
  "\<forall>item\<in>set items. \<exists>w. field item outer = Some w \<and> w \<noteq> JNull \<Longrightarrow>
     \<exists>rs. unwrapAll outer items = Inr rs"
proof (induction items)
  case Nil
  then show ?case by simp
next
  case (Cons item items)
  then obtain rs where rs: "unwrapAll outer items = Inr rs" by auto
  from Cons.prems obtain w where "field item outer = Some w" "w \<noteq> JNull" by auto
  then have "unwrap outer item = Inr (field w ''result'')" by (rule unwrap_total)
  with rs show ?case by simp
qed

lemma extractRequired_container:
  assumes "timelineKind type \<or> connectionKind type"
  shows "extractRequired data type =
           (case findByFilter data ''__typename'' (containerTag type) of
              Inl e \<Rightarrow> Inl e
            | Inr items \<Rightarrow> unwrapAll (wrapperField type) items)"
  using assms
  by (cases type)
     (simp_all add: timelineKind_def connectionKind_def extractRequired_def containerTag_def
        wrapperField_def split: sum.splits)

text \<open>
  C8. For a timeline or connection kind, the required fragments are the inner entities
  \<open>item.tweet_results.result\<close> (\<open>item.user_results.result\<close>) of the matched containers,
  one for each match and in the order of the matches; extraction returns when every
  matched container has its wrapper, and they are what \<open>fetch\<close> deserializes. On the
  response of scenario B, \<open>fetch\<close> returns the two posts in their order with the cursor
  \<open>abc|\<close>, after one call of the transport.
\<close>

theorem projection_before_deserialization:
  "((timelineKind type \<or> connectionKind type) \<and> extractData data type = Inr (required, nxt) \<longrightarrow>
      list_all2
        (\<lambda>item r. \<exists>w. field item (wrapperField type) = Some w \<and> w \<noteq> JNull
                      \<and> r = field w ''result'')
        (filter (matchesFilter ''__typename'' (containerTag type)) (nodes data)) required)
   \<and> ((timelineKind type \<or> connectionKind type)
        \<and> findByFilter data ''__typename'' (containerTag type) = Inr items
        \<and> (\<forall>item\<in>set items. \<exists>w. field item (wrapperField type) = Some w \<and> w \<noteq> JNull)
        \<and> extractNext data = Inr nxt \<longrightarrow>
      (\<exists>required. extractData data type = Inr (required, nxt)))
   \<and> (\<forall>d s'. fetch env s type args = (Inr d, s') \<longrightarrow>
        (\<exists>res required nxt.
            request env s (newRequest env type args) = (Inr res, s')
          \<and> extractData res type = Inr (required, nxt)
          \<and> list d = map toEntity (filter qualifies required)))
   \<and> (timelineKind type \<and> checkAuthorization (isAuthenticated s) type = Inr ()
        \<and> cred s = Some c \<and> axios env (newRequest env type args) c = Inr scenarioB \<longrightarrow>
      fetch env s type args
        = (Inr (CursoredData [Tweet postA, Tweet postB] (JString ''abc|'')),
           s\<lparr>cred := Some c, calls := calls s + 1\<rparr>))"
proof (intro conjI allI impI)
  assume a: "(timelineKind type \<or> connectionKind type) \<and> extractData data type = Inr (required, nxt)"
  then have "extractRequired data type = Inr required" by (simp add: extractData_parts)
  with a obtain items where i: "findByFilter data ''__typename'' (containerTag type) = Inr items"
    and u: "unwrapAll (wrapperField type) items = Inr required"
    by (auto simp: extractRequired_container split: sum.splits)
  from findByFilter_sound(1) [OF i] unwrapAll_sound [OF u]
  show "list_all2
        (\<lambda>item r. \<exists>w. field item (wrapperField type) = Some w \<and> w \<noteq> JNull
                      \<and> r = field w ''result'')
        (filter (matchesFilter ''__typename'' (containerTag type)) (nodes data)) required"
    by simp
next
  assume a: "(timelineKind type \<or> connectionKind type)
        \<and> findByFilter data ''__typename'' (containerTag type) = Inr items
        \<and> (\<forall>item\<in>set items. \<exists>w. field item (wrapperField type) = Some w \<and> w \<noteq> JNull)
        \<and> extractNext data = Inr nxt"
  then obtain rs where "unwrapAll (wrapperField type) items = Inr rs"
    using unwrapAll_total [of items "wrapperField type"] by blast
  with a have "extractRequired data type = Inr rs"
    by (simp add: extractRequired_container)
  with a show "\<exists>required. extractData data type = Inr (required, nxt)"
    by (simp add: extractData_def)
next
  fix d s'
  assume "fetch env s type args = (Inr d, s')"
  from fetch_returns [OF this] obtain res required nxt where
    r: "request env s (newRequest env type args) = (Inr res, s')"
    and e: "extractData res type = Inr (required, nxt)"
    and d: "deserializeData required nxt = Inr d" by blast
  from d have "list d = map toEntity (filter qualifies required)"
    by (auto simp: deserializeData_def split: sum.splits dest: deserializeList_sound)
  with r e show "\<exists>res required nxt.
            request env s (newRequest env type args) = (Inr res, s')
          \<and> extractData res type = Inr (required, nxt)
          \<and> list d = map toEntity (filter qualifies required)"
    by blast
next
  assume a: "timelineKind type \<and> checkAuthorization (isAuthenticated s) type = Inr ()
        \<and> cred s = Some c \<and> axios env (newRequest env type args) c = Inr scenarioB"
  then have "request env s (newRequest env type args)
               = (Inr scenarioB, s\<lparr>cred := Some c, calls := calls s + 1\<rparr>)"
    by (intro request_served) (simp_all add: newRequest_def)
  with a show "fetch env s type args
        = (Inr (CursoredData [Tweet postA, Tweet postB] (JString ''abc|'')),
           s\<lparr>cred := Some c, calls := calls s + 1\<rparr>)"
    by (simp add: fetch_def extractData_scenarioB deserialize_postA_postB)
qed

theorem projection_before_deserialization_witness:
  "timelineKind USER_TWEETS
   \<and> extractData scenarioB USER_TWEETS = Inr ([Some postA, Some postB], Some (JString ''abc|''))
   \<and> filter (matchesFilter ''__typename'' (containerTag USER_TWEETS)) (nodes scenarioB)
       = [timelineTweet postA, timelineTweet postB]
   \<and> list_all2
        (\<lambda>item r. \<exists>w. field item (wrapperField USER_TWEETS) = Some w \<and> w \<noteq> JNull
                      \<and> r = field w ''result'')
        [timelineTweet postA, timelineTweet postB] [Some postA, Some postB]
   \<and> field (timelineTweet postA) (wrapperField USER_TWEETS) = Some (JObject [(''result'', postA)])
   \<and> checkAuthorization (isAuthenticated servedGuest) USER_TWEETS = Inr ()
   \<and> cred servedGuest = Some (GuestCredential ''guest'')
   \<and> fetch (serving scenarioB) servedGuest USER_TWEETS []
       = (Inr (CursoredData [Tweet postA, Tweet postB] (JString ''abc|'')),
          servedGuest\<lparr>cred := Some (GuestCredential ''guest''), calls := calls servedGuest + 1\<rparr>)
   \<and> calls servedGuest + 1 = 2"
proof -
  note T = projection_before_deserialization
    [of USER_TWEETS scenarioB "[Some postA, Some postB]" "Some (JString ''abc|'')" _
        "serving scenarioB" servedGuest "[]" "GuestCredential ''guest''"]
  have k: "timelineKind USER_TWEETS" by (simp add: timelineKind_def)
  have e: "extractData scenarioB USER_TWEETS = Inr ([Some postA, Some postB], Some (JString ''abc|''))"
    using k by (rule extractData_scenarioB)
  have m: "filter (matchesFilter ''__typename'' (containerTag USER_TWEETS)) (nodes scenarioB)
       = [timelineTweet postA, timelineTweet postB]"
    by (simp add: containerTag_def k scenarioB_def timelineTweet_def postA_def postB_def
          bottom_def matchesFilter_def)
  have w: "field (timelineTweet postA) (wrapperField USER_TWEETS) = Some (JObject [(''result'', postA)])"
    by (simp add: wrapperField_def k timelineTweet_def)
  have c: "checkAuthorization (isAuthenticated servedGuest) USER_TWEETS = Inr ()"
    "cred servedGuest = Some (GuestCredential ''guest'')" "calls servedGuest + 1 = 2"
    by (simp_all add: checkAuthorization_def servedGuest_def)
  have x: "axios (serving scenarioB) (newRequest (serving scenarioB) USER_TWEETS [])
             (GuestCredential ''guest'') = Inr scenarioB"
    by (simp add: serving_def)
  from T [THEN conjunct2, THEN conjunct2, THEN conjunct2, THEN mp] k c(1,2) x
  have "fetch (serving scenarioB) servedGuest USER_TWEETS []
       = (Inr (CursoredData [Tweet postA, Tweet postB] (JString ''abc|'')),
          servedGuest\<lparr>cred := Some (GuestCredential ''guest''), calls := calls servedGuest + 1\<rparr>)"
    by blast
  moreover
  from T [THEN conjunct1, THEN mp, OF conjI, OF disjI1, OF k e]
  have "list_all2
        (\<lambda>item r. \<exists>w. field item (wrapperField USER_TWEETS) = Some w \<and> w \<noteq> JNull
                      \<and> r = field w ''result'')
        [timelineTweet postA, timelineTweet postB] [Some postA, Some postB]"
    by (simp only: m)
  ultimately show ?thesis using k e m w c by simp
qed

text \<open>
  C9. For a single-entity kind the cursor is read as for every other kind: it is the
  \<open>value\<close> of the first mapping whose \<open>cursorType\<close> equals \<open>Bottom\<close>, the same for every
  kind on the same body, and the result carries the empty string when the body holds no
  such mapping, as in scenario A.
\<close>

theorem single_entity_cursor:
  "singleEntityKind type \<and> extractData data type = Inr (required, nxt) \<longrightarrow>
      nxt = (case bottomCursor data of None \<Rightarrow> None | Some c \<Rightarrow> field c ''value'')
    \<and> (\<forall>type' required' nxt'. extractData data type' = Inr (required', nxt') \<longrightarrow> nxt' = nxt)
    \<and> (bottomCursor data = None \<longrightarrow>
         (\<forall>d. deserializeData required nxt = Inr d \<longrightarrow> next_cursor d = JString []))"
proof (intro impI conjI allI)
  assume "singleEntityKind type \<and> extractData data type = Inr (required, nxt)"
  then have "extractNext data = Inr nxt" using extractData_parts by blast
  then show "nxt = (case bottomCursor data of None \<Rightarrow> None | Some c \<Rightarrow> field c ''value'')"
    by (rule extractNext_sound)
next
  fix type' required' nxt'
  assume "singleEntityKind type \<and> extractData data type = Inr (required, nxt)"
    and "extractData data type' = Inr (required', nxt')"
  then have "extractNext data = Inr nxt" "extractNext data = Inr nxt'"
    using extractData_parts by blast+
  then show "nxt' = nxt" by simp
next
  fix d
  assume "singleEntityKind type \<and> extractData data type = Inr (required, nxt)"
    and b: "bottomCursor data = None" and d: "deserializeData required nxt = Inr d"
  then have "extractNext data = Inr nxt" using extractData_parts by blast
  then have "nxt = (case bottomCursor data of None \<Rightarrow> None | Some c \<Rightarrow> field c ''value'')"
    by (rule extractNext_sound)
  with b deserializeData_next [OF d] show "next_cursor d = JString []" by simp
qed

theorem single_entity_cursor_witness:
  "singleEntityKind TWEET_DETAILS
   \<and> extractData scenarioA TWEET_DETAILS = Inr ([Some post123], None)
   \<and> field post123 ''rest_id'' = Some (JString ''123'')
   \<and> bottomCursor scenarioA = None
   \<and> deserializeData [Some post123] None = Inr (CursoredData [Tweet post123] (JString []))
   \<and> entityId (Tweet post123) = Some (JString ''123'')
   \<and> next_cursor (CursoredData [Tweet post123] (JString [])) = JString []"
proof -
  note T = single_entity_cursor [of TWEET_DETAILS scenarioA "[Some post123]" None]
  have k: "singleEntityKind TWEET_DETAILS" by (simp add: singleEntityKind_def)
  have d: "deserializeData [Some post123] None = Inr (CursoredData [Tweet post123] (JString []))"
    by (simp add: deserialize_post123)
  from T [THEN mp, OF conjI, OF k extractData_scenarioA]
  have "bottomCursor scenarioA = None \<longrightarrow>
         (\<forall>d. deserializeData [Some post123] None = Inr d \<longrightarrow> next_cursor d = JString [])"
    by simp
  from this [THEN mp, OF bottomCursor_scenarioA, THEN spec, THEN mp, OF d]
  have "next_cursor (CursoredData [Tweet post123] (JString [])) = JString []" .
  with k d show ?thesis
    by (simp add: extractData_scenarioA bottomCursor_scenarioA)
       (simp add: post123_def entityId_def)
qed

text \<open>
  On a body that holds a cursor mapping beside the post, the single-post lookup returns
  that cursor.
\<close>

theorem single_entity_cursor_counterexample:
  "singleEntityKind TWEET_DETAILS
   \<and> extractData detailsWithCursor TWEET_DETAILS = Inr ([Some post123], Some (JString ''abc''))
   \<and> fetch (serving detailsWithCursor) guestService TWEET_DETAILS [(''id'', ''123'')]
       = (Inr (CursoredData [Tweet post123] (JString ''abc'')), servedGuest)"
proof -
  have e: "extractData detailsWithCursor TWEET_DETAILS = Inr ([Some post123], Some (JString ''abc''))"
    by (simp add: extractData_def extractRequired_def extractNext_def detailsWithCursor_def
          post123_def bottom_def)
  then show ?thesis
    by (simp add: singleEntityKind_def fetch_def guest_request_served deserialize_post123)
qed

text \<open>
  C10. When the request for the details of a post returns a body from which extraction
  yields no fragment, or only fragments that deserialization drops, \<open>details\<close> returns
  \<open>undefined\<close> and raises nothing.
\<close>

theorem details_absent:
  "request env s (newRequest env TWEET_DETAILS [(''id'', ident)]) = (Inr res, s')
   \<and> extractData res TWEET_DETAILS = Inr (required, nxt)
   \<and> (required = [] \<or> deserializeList required = Inr [])
   \<longrightarrow> details env s ident = (Inr None, s')"
proof
  assume a: "request env s (newRequest env TWEET_DETAILS [(''id'', ident)]) = (Inr res, s')
   \<and> extractData res TWEET_DETAILS = Inr (required, nxt)
   \<and> (required = [] \<or> deserializeList required = Inr [])"
  then have "deserializeList required = Inr []" by auto
  then have "deserializeData required nxt
               = Inr (CursoredData [] (case nxt of None \<Rightarrow> JString [] | Some c \<Rightarrow> c))"
    by (simp add: deserializeData_def)
  with a show "details env s ident = (Inr None, s')"
    by (simp add: details_def fetch_def)
qed

theorem details_absent_witness:
  "details (serving (JObject [(''data'', JObject [])])) guestService ''123'' = (Inr None, servedGuest)
   \<and> extractData (JObject [(''data'', JObject [])]) TWEET_DETAILS = Inr ([], None)
   \<and> details (serving (JObject [(''__typename'', JString ''Tweet'')])) guestService ''123''
       = (Inr None, servedGuest)
   \<and> extractData (JObject [(''__typename'', JString ''Tweet'')]) TWEET_DETAILS
       = Inr ([Some (JObject [(''__typename'', JString ''Tweet'')])], None)
   \<and> deserializeList [Some (JObject [(''__typename'', JString ''Tweet'')])] = Inr []"
proof -
  let ?e = "JObject [(''data'', JObject [])]"
  let ?t = "JObject [(''__typename'', JString ''Tweet'')]"
  have e1: "extractData ?e TWEET_DETAILS = Inr ([], None)"
    by (simp add: extractData_def extractRequired_def extractNext_def)
  have e2: "extractData ?t TWEET_DETAILS = Inr ([Some ?t], None)"
    by (simp add: extractData_def extractRequired_def extractNext_def)
  have d2: "deserializeList [Some ?t] = Inr []" by simp
  have r: "request (serving b) guestService (newRequest (serving b) TWEET_DETAILS [(''id'', ''123'')])
             = (Inr b, servedGuest)" for b
    by (simp add: guest_request_served)
  from details_absent [of "serving ?e" guestService "''123''" ?e servedGuest "[]" None] r [of ?e] e1
  have "details (serving ?e) guestService ''123'' = (Inr None, servedGuest)" by blast
  moreover
  from details_absent [of "serving ?t" guestService "''123''" ?t servedGuest "[Some ?t]" None]
    r [of ?t] e2 d2
  have "details (serving ?t) guestService ''123'' = (Inr None, servedGuest)" by blast
  ultimately show ?thesis using e1 e2 d2 by simp
qed

text \<open>
  C5. A timeline container without its \<open>tweet_results\<close> makes the projection of
  \<open>extractData\<close> raise a TypeError: \<open>fetch\<close> fails and the well-formed post of the same
  page is not returned. A container whose \<open>tweet_results\<close> is there and holds no
  \<open>result\<close> is dropped, and the post beside it is returned.
\<close>

theorem malformed_container_aborts_page:
  "extractData brokenPage USER_TWEETS = Inl TypeError
   \<and> fetch (serving brokenPage) guestService USER_TWEETS [] = (Inl TypeError, servedGuest)
   \<and> extractData emptyWrapperPage USER_TWEETS = Inr ([Some postA, None], None)
   \<and> fetch (serving emptyWrapperPage) guestService USER_TWEETS []
       = (Inr (CursoredData [Tweet postA] (JString [])), servedGuest)"
proof -
  have b: "extractData brokenPage USER_TWEETS = Inl TypeError"
    by (simp add: extractData_def extractRequired_def unwrap_def brokenPage_def
          timelineTweet_def postA_def)
  have e: "extractData emptyWrapperPage USER_TWEETS = Inr ([Some postA, None], None)"
    by (simp add: extractData_def extractRequired_def extractNext_def unwrap_def
          emptyWrapperPage_def timelineTweet_def postA_def)
  have d: "deserializeData [Some postA, None] None = Inr (CursoredData [Tweet postA] (JString []))"
    by (simp add: deserializeData_def postA_def)
  show ?thesis
    by (simp add: b e d fetch_def guest_request_served)
qed

section \<open>Properties of the authorization check\<close>







end
